theory Spec2Isabelle
  imports Main
begin

section \<open>The telegram backend: data\<close>

text \<open>
  The embedding follows \<^verbatim>\<open>backend/telegram/telegram.go\<close>. The backend keeps no state of
  its own: everything lives in the chat, which it reaches through the Bot API (the
  requests \<^verbatim>\<open>sendDocument\<close>, \<^verbatim>\<open>getUpdates\<close>, \<^verbatim>\<open>getFile\<close> and the download of a file).
  The chat is therefore the state that the operations pass along, and every call that
  the source checks for an error takes its outcome from an environment, so that each
  early return of the source is a branch here.
\<close>

text \<open>
  Errors. \<open>LibError\<close> stands for an error value handed back by a library call
  (\<^verbatim>\<open>io.Copy\<close>, \<^verbatim>\<open>mime/multipart\<close>, \<^verbatim>\<open>net/http\<close>, \<^verbatim>\<open>json.MarshalIndent\<close>), \<open>JSONError\<close>
  for the error of a \<^verbatim>\<open>json.Decoder\<close>. \<open>UploadFailed\<close>, \<open>FilelistUploadFailed\<close> and
  \<open>FilelistNotFound\<close> are the three \<^verbatim>\<open>fmt.Errorf\<close> values of the source.
  \<open>ErrorHashUnsupported\<close> and \<open>ErrorNotImplemented\<close> are \<^verbatim>\<open>fs.ErrorHashUnsupported\<close> and
  \<^verbatim>\<open>fs.ErrorNotImplemented\<close>, which the source takes from the package \<^verbatim>\<open>fs\<close>.
\<close>

datatype error =
    LibError string
  | JSONError
  | UploadFailed string
  | FilelistUploadFailed string
  | FilelistNotFound
  | ErrorHashUnsupported
  | ErrorNotImplemented

text \<open>
  Modelled from the spec: the two values of the package \<^verbatim>\<open>fs\<close> are declared outside the
  files at hand. They are the sentinel errors by which an object reports an operation
  that its backend does not support, the spec's \<^verbatim>\<open>UnsupportedOperationError\<close>.
\<close>

definition UnsupportedOperationError :: "error \<Rightarrow> bool" where
  "UnsupportedOperationError e = (e = ErrorHashUnsupported \<or> e = ErrorNotImplemented)"

record TelegramConfig =
  BotToken :: string
  ChatID :: string

text \<open>
  The fields \<^verbatim>\<open>name\<close>, \<^verbatim>\<open>root\<close>, \<^verbatim>\<open>config\<close> of \<^verbatim>\<open>Fs\<close> and \<^verbatim>\<open>fs\<close>, \<^verbatim>\<open>name\<close> of
  \<^verbatim>\<open>TelegramObject\<close> carry a prefix, since two records cannot share a field name.
\<close>

record Fs =
  fs_name :: string
  fs_root :: string
  fs_config :: TelegramConfig

record TelegramObject =
  obj_fs :: Fs
  obj_name :: string

section \<open>Strings through encoding/json\<close>

text \<open>
  A Go string is any sequence of bytes. \<^verbatim>\<open>encoding/json\<close> writes and reads strings rune
  by rune with \<^verbatim>\<open>utf8.DecodeRune\<close>, which accepts at the head of a string one of the
  UTF-8 sequences below and otherwise reports \<^verbatim>\<open>RuneError\<close> with width 1.
  \<open>rune_size s\<close> is the width of the sequence accepted at the head of \<open>s\<close>, and 0 when
  none is: a byte below \<^verbatim>\<open>0x80\<close>; \<^verbatim>\<open>C2..DF\<close> and one continuation byte \<^verbatim>\<open>80..BF\<close>;
  \<^verbatim>\<open>E0..EF\<close> and two (the first of them from \<^verbatim>\<open>A0\<close> after \<^verbatim>\<open>E0\<close> and up to \<^verbatim>\<open>9F\<close> after
  \<^verbatim>\<open>ED\<close>); \<^verbatim>\<open>F0..F4\<close> and three (the first of them from \<^verbatim>\<open>90\<close> after \<^verbatim>\<open>F0\<close> and up to
  \<^verbatim>\<open>8F\<close> after \<^verbatim>\<open>F4\<close>).
\<close>

definition continuation :: "char \<Rightarrow> bool" where
  "continuation c = (128 \<le> (of_char c :: nat) \<and> (of_char c :: nat) \<le> 191)"

fun rune_size :: "string \<Rightarrow> nat" where
  "rune_size [] = 0"
| "rune_size (c # cs) =
     (let b = (of_char c :: nat) in
      if b < 128 then 1
      else if 194 \<le> b \<and> b \<le> 223 then
        (case cs of
           c1 # r \<Rightarrow> if continuation c1 then 2 else 0
         | _ \<Rightarrow> 0)
      else if 224 \<le> b \<and> b \<le> 239 then
        (case cs of
           c1 # c2 # r \<Rightarrow>
             if (if b = 224 then 160 else 128) \<le> (of_char c1 :: nat) \<and>
                (of_char c1 :: nat) \<le> (if b = 237 then 159 else 191) \<and> continuation c2
             then 3 else 0
         | _ \<Rightarrow> 0)
      else if 240 \<le> b \<and> b \<le> 244 then
        (case cs of
           c1 # c2 # c3 # r \<Rightarrow>
             if (if b = 240 then 144 else 128) \<le> (of_char c1 :: nat) \<and>
                (of_char c1 :: nat) \<le> (if b = 244 then 143 else 191) \<and>
                continuation c2 \<and> continuation c3
             then 4 else 0
         | _ \<Rightarrow> 0)
      else 0)"

text \<open>
  Both the encoder (\<^verbatim>\<open>json.MarshalIndent\<close>, line 99) and the decoder (line 192) keep
  the accepted sequences and put the three bytes of U+FFFD in the place of every other
  byte: \<open>to_valid_utf8\<close>. Escapes are undone by the decoder and change nothing.
  \<open>valid_utf8\<close> is \<^verbatim>\<open>utf8.ValidString\<close>: the strings that this leaves as they are.
\<close>

definition RuneError :: string where
  "RuneError = [CHR 0xEF, CHR 0xBF, CHR 0xBD]"

function to_valid_utf8 :: "string \<Rightarrow> string" where
  "to_valid_utf8 [] = []"
| "to_valid_utf8 (c # cs) =
     (if rune_size (c # cs) = 0 then RuneError @ to_valid_utf8 cs
      else take (rune_size (c # cs)) (c # cs) @
           to_valid_utf8 (drop (rune_size (c # cs)) (c # cs)))"
  by pat_completeness auto
termination
  by (relation "measure length") auto

function valid_utf8 :: "string \<Rightarrow> bool" where
  "valid_utf8 [] = True"
| "valid_utf8 (c # cs) =
     (if rune_size (c # cs) = 0 then False
      else valid_utf8 (drop (rune_size (c # cs)) (c # cs)))"
  by pat_completeness auto
termination
  by (relation "measure length") auto

text \<open>
  The content of a document, seen through \<^verbatim>\<open>encoding/json\<close>: either it is a JSON array
  of strings (\<open>JsonStrings\<close>, with the bytes of each string as written, escapes undone),
  which decodes to a \<^verbatim>\<open>[]string\<close>, or it does not decode, and then only its bytes are
  kept. \<open>MarshalIndent\<close> is \<^verbatim>\<open>json.MarshalIndent\<close> on a \<^verbatim>\<open>[]string\<close>.
\<close>

datatype payload = JsonStrings "string list" | Other string

fun json_decode :: "payload \<Rightarrow> error + string list" where
  "json_decode (JsonStrings xs) = Inr (map to_valid_utf8 xs)"
| "json_decode (Other bs) = Inl JSONError"

definition MarshalIndent :: "string list \<Rightarrow> payload" where
  "MarshalIndent fileList = JsonStrings (map to_valid_utf8 fileList)"

section \<open>The chat\<close>

text \<open>
  The Bot API is a service outside the source; the chat below stands for it, after the
  transport client of the spec (send a named document, scan the messages in order,
  fetch the content of a reference). The chat is the list of its messages, oldest
  first. A message carries a document (declared file name and content) or none. The
  Bot API assigns a file id to every document; here the id of the document in message
  \<open>i\<close> is \<open>file_id_of i\<close>, which is never empty and differs from message to message.
\<close>

datatype message = Note | Doc string payload

type_synonym chat = "message list"

definition file_id_of :: "nat \<Rightarrow> string" where
  "file_id_of i = replicate (Suc i) (CHR ''f'')"

text \<open>The element type of \<^verbatim>\<open>updates.Result\<close>: the field \<^verbatim>\<open>Message.Document\<close> is a pointer.\<close>

record document =
  FileName :: string
  FileID :: string

type_synonym update = "document option"

fun updates_from :: "nat \<Rightarrow> chat \<Rightarrow> update list" where
  "updates_from i [] = []"
| "updates_from i (Note # ms) = None # updates_from (Suc i) ms"
| "updates_from i (Doc n p # ms) =
     Some \<lparr>FileName = n, FileID = file_id_of i\<rparr> # updates_from (Suc i) ms"

fun files_from :: "nat \<Rightarrow> chat \<Rightarrow> (string \<times> payload) list" where
  "files_from i [] = []"
| "files_from i (Note # ms) = files_from (Suc i) ms"
| "files_from i (Doc n p # ms) = (file_id_of i, p) # files_from (Suc i) ms"

text \<open>
  What the three read calls answer when nothing goes wrong: \<^verbatim>\<open>getUpdates\<close> reports
  every message of the chat in order, \<^verbatim>\<open>getFile\<close> gives the path of a known file id
  (the id itself; the empty path for an unknown id), and the download of a path gives
  the content sent (an undecodable error body for an unknown path).
\<close>

definition getUpdates :: "chat \<Rightarrow> update list" where
  "getUpdates c = updates_from 0 c"

definition getFile :: "chat \<Rightarrow> string \<Rightarrow> string" where
  "getFile c fid = (case map_of (files_from 0 c) fid of Some p \<Rightarrow> fid | None \<Rightarrow> [])"

definition download :: "chat \<Rightarrow> string \<Rightarrow> payload" where
  "download c path =
     (case map_of (files_from 0 c) path of Some p \<Rightarrow> p | None \<Rightarrow> Other ''not found'')"

text \<open>
  The outcome of \<^verbatim>\<open>http.DefaultClient.Do\<close> on a \<^verbatim>\<open>sendDocument\<close> request: an error, or
  a response of which the source reads \<^verbatim>\<open>StatusCode\<close> and \<^verbatim>\<open>Status\<close>. The chat receives
  the document exactly when the response is 200.
\<close>

record response =
  StatusCode :: int
  Status :: string

datatype do_result = DoError error | DoResponse response

definition StatusOK :: int where
  "StatusOK = 200"

text \<open>
  The outcome of a read call: an error of the client, a body that the decoder rejects,
  or the answer of the chat.
\<close>

datatype get_result = GetError error | GetGarbled | GetOk

text \<open>
  The environment of one upload (the four checked calls from \<^verbatim>\<open>CreateFormFile\<close> to
  \<^verbatim>\<open>Do\<close>), of one \<^verbatim>\<open>loadFileList\<close>, and of one \<^verbatim>\<open>Put\<close>.
\<close>

record upload_env =
  create_form_file :: "error option"
  part_write :: "error option"
  new_request :: "error option"
  client_do :: do_result

record load_env =
  updates_request :: "error option"
  updates_get :: get_result
  file_info_get :: get_result
  file_get :: get_result

record put_env =
  object_upload :: upload_env
  filelist_load :: load_env
  marshal_indent :: "error option"
  filelist_upload :: upload_env

section \<open>The operations\<close>

text \<open>
  The multipart upload that \<^verbatim>\<open>Put\<close> writes out twice (lines 63 to 91 for the object,
  104 to 128 for the file list); \<open>failed\<close> is the \<^verbatim>\<open>fmt.Errorf\<close> of the status check.
\<close>

definition send_document ::
  "upload_env \<Rightarrow> (string \<Rightarrow> error) \<Rightarrow> string \<Rightarrow> payload \<Rightarrow> chat \<Rightarrow> (error + unit) \<times> chat" where
  "send_document ue failed filename content c =
     (case create_form_file ue of Some e \<Rightarrow> (Inl e, c) | None \<Rightarrow>
     (case part_write ue of Some e \<Rightarrow> (Inl e, c) | None \<Rightarrow>
     (case new_request ue of Some e \<Rightarrow> (Inl e, c) | None \<Rightarrow>
     (case client_do ue of DoError e \<Rightarrow> (Inl e, c) | DoResponse resp \<Rightarrow>
        if StatusCode resp \<noteq> StatusOK then (Inl (failed (Status resp)), c)
        else (Inr (), c @ [Doc filename content])))))"

text \<open>
  The loop of \<^verbatim>\<open>loadFileList\<close>, from index \<^verbatim>\<open>len(updates.Result) - 1\<close> down to 0;
  \<open>find_filelist us n\<close> has the indices below \<open>n\<close> left and returns \<^verbatim>\<open>fileID\<close>, which
  stays empty when no message matches.
\<close>

fun find_filelist :: "update list \<Rightarrow> nat \<Rightarrow> string" where
  "find_filelist us 0 = []"
| "find_filelist us (Suc i) =
     (case us ! i of
        Some d \<Rightarrow> if FileName d = ''filelist.json'' then FileID d else find_filelist us i
      | None \<Rightarrow> find_filelist us i)"

definition loadFileList :: "load_env \<Rightarrow> chat \<Rightarrow> error + string list" where
  "loadFileList le c =
     (case updates_request le of Some e \<Rightarrow> Inl e | None \<Rightarrow>
     (case updates_get le of GetError e \<Rightarrow> Inl e | GetGarbled \<Rightarrow> Inl JSONError | GetOk \<Rightarrow>
     (let updates = getUpdates c;
          fileID = find_filelist updates (length updates)
      in if fileID = [] then Inl FilelistNotFound
      else
     (case file_info_get le of GetError e \<Rightarrow> Inl e | GetGarbled \<Rightarrow> Inl JSONError | GetOk \<Rightarrow>
     (let filePath = getFile c fileID in
     (case file_get le of GetError e \<Rightarrow> Inl e | GetGarbled \<Rightarrow> Inl JSONError | GetOk \<Rightarrow>
        json_decode (download c filePath)))))))"

text \<open>
  \<^verbatim>\<open>Put\<close> in its three parts: the upload of the object (lines 56 to 91), the file list
  to publish (lines 94 to 98), and the upload of the file list (lines 99 to 130). The
  source reader \<open>src\<close> is what \<^verbatim>\<open>io.Copy\<close> makes of it, an error or the bytes read; the
  object returned on success is the \<^verbatim>\<open>nil\<close> of line 130, \<open>None\<close>.
\<close>

definition put_object ::
  "upload_env \<Rightarrow> string \<Rightarrow> error + payload \<Rightarrow> chat \<Rightarrow> (error + unit) \<times> chat" where
  "put_object ue remote src c =
     (case src of Inl e \<Rightarrow> (Inl e, c) | Inr buf \<Rightarrow>
      send_document ue UploadFailed remote buf c)"

definition put_filelist :: "load_env \<Rightarrow> string \<Rightarrow> chat \<Rightarrow> string list" where
  "put_filelist le remote c =
     (let fileList = (case loadFileList le c of Inl err \<Rightarrow> [] | Inr fl \<Rightarrow> fl)
      in fileList @ [remote])"

definition put_publish ::
  "put_env \<Rightarrow> string list \<Rightarrow> chat \<Rightarrow> (error + TelegramObject option) \<times> chat" where
  "put_publish env fileList c =
     (case marshal_indent env of Some e \<Rightarrow> (Inl e, c) | None \<Rightarrow>
     (case send_document (filelist_upload env) FilelistUploadFailed
             ''filelist.json'' (MarshalIndent fileList) c of
        (Inl e, c') \<Rightarrow> (Inl e, c')
      | (Inr u, c') \<Rightarrow> (Inr None, c')))"

definition Put ::
  "Fs \<Rightarrow> put_env \<Rightarrow> string \<Rightarrow> error + payload \<Rightarrow> chat \<Rightarrow> (error + TelegramObject option) \<times> chat" where
  "Put f env remote src c =
     (case put_object (object_upload env) remote src c of
        (Inl e, c1) \<Rightarrow> (Inl e, c1)
      | (Inr u, c1) \<Rightarrow> put_publish env (put_filelist (filelist_load env) remote c1) c1)"

text \<open>\<^verbatim>\<open>List\<close>: the argument \<open>dir\<close> is not read by the source.\<close>

definition List :: "Fs \<Rightarrow> load_env \<Rightarrow> string \<Rightarrow> chat \<Rightarrow> error + TelegramObject list" where
  "List f le dir c =
     (case loadFileList le c of
        Inl err \<Rightarrow> Inl err
      | Inr fileList \<Rightarrow> Inr (map (\<lambda>name. \<lparr>obj_fs = f, obj_name = name\<rparr>) fileList))"

text \<open>
  Modelled from the spec: \<^verbatim>\<open>fs.Time\<close> is declared outside the files at hand; it is taken
  as a count of nanoseconds, whose zero value \<^verbatim>\<open>fs.Time{}\<close> is 0.
\<close>

datatype fs_Time = Time int

text \<open>
  The methods of \<^verbatim>\<open>TelegramObject\<close>. A Go result pair \<^verbatim>\<open>(value, error)\<close> whose value is
  the zero value beside an error is the error alone here; \<^verbatim>\<open>ModTime\<close> keeps its pair.
\<close>

definition Remote :: "TelegramObject \<Rightarrow> string" where
  "Remote obj = obj_name obj"

definition ModTime :: "TelegramObject \<Rightarrow> fs_Time \<times> error option" where
  "ModTime obj = (Time 0, None)"

definition Size :: "TelegramObject \<Rightarrow> int" where
  "Size obj = 0"

definition Hash :: "TelegramObject \<Rightarrow> 'ty \<Rightarrow> error + string" where
  "Hash obj ty = Inl ErrorHashUnsupported"

definition Remove :: "TelegramObject \<Rightarrow> error option" where
  "Remove obj = Some ErrorNotImplemented"

definition Update :: "TelegramObject \<Rightarrow> 'info \<Rightarrow> 'reader \<Rightarrow> 'opt list \<Rightarrow> error option" where
  "Update obj info src options = Some ErrorNotImplemented"

definition Open :: "TelegramObject \<Rightarrow> 'opt list \<Rightarrow> error + 'rc" where
  "Open obj options = Inl ErrorNotImplemented"

section \<open>The catalog of a chat and the outcomes of a call\<close>

text \<open>
  The content of the latest document named \<^verbatim>\<open>filelist.json\<close>, if the chat has one: what
  \<open>loadFileList\<close> reads when its calls are answered (lemma \<open>loadFileList_answers\<close>).
\<close>

fun latest_filelist :: "chat \<Rightarrow> payload option" where
  "latest_filelist [] = None"
| "latest_filelist (m # ms) =
     (case latest_filelist ms of
        Some p \<Rightarrow> Some p
      | None \<Rightarrow> (case m of Doc n p \<Rightarrow> if n = ''filelist.json'' then Some p else None
                 | Note \<Rightarrow> None))"

text \<open>
  An upload succeeds when none of its four checked calls fails and the response is 200;
  a load is answered when its request is built and its three reads return the chat's
  answer; a \<open>Put\<close> meets no fault when both uploads succeed, the load is answered and
  \<^verbatim>\<open>json.MarshalIndent\<close> returns no error.
\<close>

definition upload_succeeds :: "upload_env \<Rightarrow> bool" where
  "upload_succeeds ue =
     (create_form_file ue = None \<and> part_write ue = None \<and> new_request ue = None \<and>
      (case client_do ue of DoError e \<Rightarrow> False | DoResponse resp \<Rightarrow> StatusCode resp = StatusOK))"

definition load_answers :: "load_env \<Rightarrow> bool" where
  "load_answers le =
     (updates_request le = None \<and> updates_get le = GetOk \<and> file_info_get le = GetOk \<and>
      file_get le = GetOk)"

definition put_succeeds :: "put_env \<Rightarrow> bool" where
  "put_succeeds env =
     (upload_succeeds (object_upload env) \<and> load_answers (filelist_load env) \<and>
      marshal_indent env = None \<and> upload_succeeds (filelist_upload env))"

text \<open>The entries that \<open>List\<close> builds from a file list.\<close>

definition entries_of :: "Fs \<Rightarrow> string list \<Rightarrow> TelegramObject list" where
  "entries_of f fileList = map (\<lambda>name. \<lparr>obj_fs = f, obj_name = name\<rparr>) fileList"

section \<open>Two callers on one chat\<close>

text \<open>
  Nothing in the source locks the chat, so two calls of \<^verbatim>\<open>Put\<close> interleave between their
  requests. A call is followed through its three parts: the object upload, the load of
  the file list (its reads see one state of the chat: documents are never changed once
  sent), and the upload of the new file list. \<open>run_put\<close> runs one caller (three steps
  are \<open>Put\<close>, lemma \<open>Put_steps\<close>); \<open>run_two\<close> runs two callers along a schedule, in
  which \<open>False\<close> gives the next step to the first caller and \<open>True\<close> to the second.
\<close>

datatype put_task =
    Start string "error + payload"
  | Uploaded string
  | Loaded "string list"
  | Finished "error + TelegramObject option"

fun put_step :: "put_env \<Rightarrow> put_task \<Rightarrow> chat \<Rightarrow> put_task \<times> chat" where
  "put_step env (Start remote src) c =
     (case put_object (object_upload env) remote src c of
        (Inl e, c1) \<Rightarrow> (Finished (Inl e), c1)
      | (Inr u, c1) \<Rightarrow> (Uploaded remote, c1))"
| "put_step env (Uploaded remote) c = (Loaded (put_filelist (filelist_load env) remote c), c)"
| "put_step env (Loaded fileList) c =
     (case put_publish env fileList c of (r, c2) \<Rightarrow> (Finished r, c2))"
| "put_step env (Finished r) c = (Finished r, c)"

fun run_put :: "nat \<Rightarrow> put_env \<Rightarrow> put_task \<times> chat \<Rightarrow> put_task \<times> chat" where
  "run_put 0 env tc = tc"
| "run_put (Suc n) env (t, c) = run_put n env (put_step env t c)"

fun run_two ::
  "bool list \<Rightarrow> put_env \<Rightarrow> put_env \<Rightarrow> put_task \<times> put_task \<times> chat \<Rightarrow> put_task \<times> put_task \<times> chat" where
  "run_two [] env1 env2 s = s"
| "run_two (False # sched) env1 env2 (t1, t2, c) =
     (case put_step env1 t1 c of (t1', c') \<Rightarrow> run_two sched env1 env2 (t1', t2, c'))"
| "run_two (True # sched) env1 env2 (t1, t2, c) =
     (case put_step env2 t2 c of (t2', c') \<Rightarrow> run_two sched env1 env2 (t1, t2', c'))"

text \<open>
  \<open>nth_turn who k sched\<close> is the place in the schedule of the \<open>k\<close>-th step of a caller
  (steps counted from 1: upload, load, publish). \<open>final_order\<close> reads off a schedule
  which names the last published file list adds to the one both callers started from:
  both, when one caller has published before the other loads; otherwise only the name
  of the caller that publishes last.
\<close>

fun nth_turn :: "bool \<Rightarrow> nat \<Rightarrow> bool list \<Rightarrow> nat" where
  "nth_turn who k [] = 0"
| "nth_turn who k (b # bs) =
     (if b = who then (if k \<le> 1 then 0 else Suc (nth_turn who (k - 1) bs))
      else Suc (nth_turn who k bs))"

definition final_order :: "bool list \<Rightarrow> string \<Rightarrow> string \<Rightarrow> string list" where
  "final_order sched a b =
     (if nth_turn False 3 sched < nth_turn True 2 sched then [a, b]
      else if nth_turn True 3 sched < nth_turn False 2 sched then [b, a]
      else if nth_turn False 3 sched < nth_turn True 3 sched then [b]
      else [a])"

section \<open>Concrete environments\<close>

definition ok_upload :: upload_env where
  "ok_upload = \<lparr>create_form_file = None, part_write = None, new_request = None,
     client_do = DoResponse \<lparr>StatusCode = 200, Status = ''200 OK''\<rparr>\<rparr>"

definition rejected_upload :: upload_env where
  "rejected_upload = \<lparr>create_form_file = None, part_write = None, new_request = None,
     client_do = DoResponse \<lparr>StatusCode = 502, Status = ''502 Bad Gateway''\<rparr>\<rparr>"

definition ok_load :: load_env where
  "ok_load = \<lparr>updates_request = None, updates_get = GetOk, file_info_get = GetOk,
     file_get = GetOk\<rparr>"

definition ok_env :: put_env where
  "ok_env = \<lparr>object_upload = ok_upload, filelist_load = ok_load, marshal_indent = None,
     filelist_upload = ok_upload\<rparr>"

definition rejected_env :: put_env where
  "rejected_env = \<lparr>object_upload = rejected_upload, filelist_load = ok_load,
     marshal_indent = None, filelist_upload = ok_upload\<rparr>"

definition fs0 :: Fs where
  "fs0 = \<lparr>fs_name = ''tg'', fs_root = [], fs_config = \<lparr>BotToken = ''token'', ChatID = ''1''\<rparr>\<rparr>"

section \<open>What encoding/json does to a string\<close>

lemma rune_size_le: "rune_size s \<le> length s"
  by (cases s) (auto simp: Let_def split: list.splits)

lemma rune_size_take:
  "rune_size s \<noteq> 0 \<Longrightarrow> rune_size (take (rune_size s) s @ r) = rune_size s"
  by (cases s) (auto simp: Let_def split: list.splits if_splits)

lemma to_valid_utf8_valid: "valid_utf8 s \<Longrightarrow> to_valid_utf8 s = s"
  by (induction s rule: valid_utf8.induct) auto

lemma rune_size_RuneError: "rune_size (RuneError @ r) = 3"
  by (simp add: RuneError_def continuation_def)

lemma valid_RuneError: "valid_utf8 (RuneError @ r) = valid_utf8 r"
  using rune_size_RuneError [of r]
  by (simp add: RuneError_def del: rune_size.simps)

lemma valid_rune:
  assumes "rune_size s \<noteq> 0"
  shows "valid_utf8 (take (rune_size s) s @ r) = valid_utf8 r"
proof -
  from assms obtain c cs where s: "s = c # cs"
    by (cases s) auto
  from assms rune_size_le [of s] obtain n where n: "rune_size s = Suc n" "Suc n \<le> length s"
    by (cases "rune_size s") auto
  have "take (rune_size s) s @ r = c # (take n cs @ r)"
    using s n by simp
  moreover have "rune_size (c # (take n cs @ r)) = Suc n"
    using rune_size_take [OF assms, of r] s n by simp
  moreover have "drop (Suc n) (c # (take n cs @ r)) = r"
    using n s by simp
  ultimately show ?thesis
    by (simp del: rune_size.simps)
qed

lemma valid_to_valid_utf8: "valid_utf8 (to_valid_utf8 s)"
  by (induction s rule: to_valid_utf8.induct)
     (simp_all add: valid_RuneError valid_rune del: rune_size.simps)

lemma valid_utf8_ascii: "\<forall>c \<in> set s. (of_char c :: nat) < 128 \<Longrightarrow> valid_utf8 s"
  by (induction s) simp_all

lemma to_valid_utf8_idem [simp]: "to_valid_utf8 (to_valid_utf8 s) = to_valid_utf8 s"
  by (simp add: to_valid_utf8_valid valid_to_valid_utf8)

lemma map_to_valid_utf8_idem [simp]:
  "map to_valid_utf8 (map to_valid_utf8 xs) = map to_valid_utf8 xs"
  by simp

text \<open>What is read back from a file list that \<open>Put\<close> has written.\<close>

lemma json_decode_MarshalIndent [simp]:
  "json_decode (MarshalIndent fl) = Inr (map to_valid_utf8 fl)"
  by (simp add: MarshalIndent_def)

section \<open>What a load reads\<close>

lemma latest_filelist_append:
  "latest_filelist (c @ d) =
     (case latest_filelist d of Some p \<Rightarrow> Some p | None \<Rightarrow> latest_filelist c)"
  by (induction c) (auto split: option.splits message.splits)

lemma latest_filelist_snoc:
  "latest_filelist (c @ [Doc n p]) =
     (if n = ''filelist.json'' then Some p else latest_filelist c)"
  by (simp add: latest_filelist_append)

lemma latest_filelist_None:
  "(latest_filelist c = None) = (\<forall>p. Doc ''filelist.json'' p \<notin> set c)"
  by (induction c) (auto split: option.splits message.splits)

lemma updates_from_append:
  "updates_from i (c @ d) = updates_from i c @ updates_from (i + length c) d"
  by (induction i c rule: updates_from.induct) auto

lemma files_from_append:
  "files_from i (c @ d) = files_from i c @ files_from (i + length c) d"
  by (induction i c rule: files_from.induct) auto

lemma length_updates_from [simp]: "length (updates_from i c) = length c"
  by (induction i c rule: updates_from.induct) auto

lemma find_filelist_prefix:
  "n \<le> length us \<Longrightarrow> find_filelist (us @ vs) n = find_filelist us n"
  by (induction n) (auto simp: nth_append split: option.splits)

lemma file_id_of_inject [simp]: "(file_id_of i = file_id_of j) = (i = j)"
  by (auto simp: file_id_of_def dest: arg_cong [where f = length])

lemma file_id_of_nonempty [simp]: "file_id_of i \<noteq> []" "[] \<noteq> file_id_of i"
  by (simp_all add: file_id_of_def)

lemma files_from_keys:
  "(k, p) \<in> set (files_from i c) \<Longrightarrow> \<exists>j. k = file_id_of j \<and> i \<le> j \<and> j < i + length c"
proof (induction i c rule: files_from.induct)
  case (1 i)
  then show ?case by simp
next
  case (2 i ms)
  then show ?case by fastforce
next
  case (3 i n q ms)
  then show ?case by fastforce
qed

lemma files_from_fresh: "map_of (files_from i c) (file_id_of (i + length c)) = None"
proof (cases "map_of (files_from i c) (file_id_of (i + length c))")
  case None
  then show ?thesis .
next
  case (Some p)
  then have "(file_id_of (i + length c), p) \<in> set (files_from i c)"
    by (rule map_of_SomeD)
  then show ?thesis by (auto dest: files_from_keys)
qed

text \<open>
  The loop finds no file id exactly when the chat has no file list, and otherwise a file
  id under which the chat keeps the content of the latest one.
\<close>

lemma find_latest:
  "case latest_filelist c of
     None \<Rightarrow> find_filelist (updates_from i c) (length c) = []
   | Some p \<Rightarrow> find_filelist (updates_from i c) (length c) \<noteq> [] \<and>
       map_of (files_from i c) (find_filelist (updates_from i c) (length c)) = Some p"
proof (induction c rule: rev_induct)
  case Nil
  then show ?case by simp
next
  case (snoc m c)
  show ?case
  proof (cases m)
    case Note
    with snoc show ?thesis
      by (auto simp: latest_filelist_append updates_from_append files_from_append
            find_filelist_prefix nth_append split: option.splits)
  next
    case (Doc n q)
    with snoc show ?thesis
      by (auto simp: latest_filelist_append updates_from_append files_from_append
            find_filelist_prefix nth_append files_from_fresh map_add_def
            split: option.splits)
  qed
qed

text \<open>
  A document found in the chat is read unchanged from every later state of the chat, so
  the three reads of a load may be taken at the state of its \<^verbatim>\<open>getUpdates\<close>.
\<close>

lemma download_later:
  assumes "map_of (files_from 0 c) fid = Some p"
  shows "download (c @ d) (getFile (c @ d) fid) = p"
  using assms by (simp add: download_def getFile_def files_from_append map_add_def)

lemma loadFileList_answers:
  assumes "load_answers le"
  shows "loadFileList le c =
    (case latest_filelist c of None \<Rightarrow> Inl FilelistNotFound | Some p \<Rightarrow> json_decode p)"
  using assms find_latest [where c = c and i = 0]
  by (auto simp: loadFileList_def load_answers_def getUpdates_def getFile_def download_def
        Let_def split: option.splits)

lemma loadFileList_no_filelist:
  assumes "updates_request le = None" "updates_get le = GetOk" "latest_filelist c = None"
  shows "loadFileList le c = Inl FilelistNotFound"
  using assms find_latest [where c = c and i = 0]
  by (simp add: loadFileList_def getUpdates_def Let_def)

lemma List_answers:
  "load_answers le \<Longrightarrow> List f le dir c =
     (case latest_filelist c of
        None \<Rightarrow> Inl FilelistNotFound
      | Some p \<Rightarrow> (case json_decode p of Inl e \<Rightarrow> Inl e | Inr fl \<Rightarrow> Inr (entries_of f fl)))"
  by (simp add: List_def loadFileList_answers entries_of_def split: option.splits sum.splits)

lemma catalog_cases:
  assumes "load_answers le" "loadFileList le c \<noteq> Inl JSONError"
  shows "latest_filelist c = None \<or> (\<exists>fl. latest_filelist c = Some (JsonStrings fl))"
proof (cases "latest_filelist c")
  case None
  then show ?thesis by simp
next
  case (Some p)
  with assms show ?thesis
    by (cases p) (simp_all add: loadFileList_answers)
qed

section \<open>What an upload and a Put do to the chat\<close>

lemma send_document_succeeds:
  "upload_succeeds ue \<Longrightarrow> send_document ue failed n p c = (Inr (), c @ [Doc n p])"
  by (auto simp: send_document_def upload_succeeds_def split: option.splits do_result.splits)

lemma send_document_fails:
  "\<not> upload_succeeds ue \<Longrightarrow> \<exists>e. send_document ue failed n p c = (Inl e, c)"
  by (auto simp: send_document_def upload_succeeds_def split: option.splits do_result.splits)


lemma put_object_succeeds:
  "upload_succeeds ue \<Longrightarrow> put_object ue remote (Inr buf) c = (Inr (), c @ [Doc remote buf])"
  by (simp add: put_object_def send_document_succeeds)

lemma put_object_fails:
  "\<not> upload_succeeds ue \<Longrightarrow> \<exists>e. put_object ue remote src c = (Inl e, c)"
  using send_document_fails [of ue]
  by (cases src) (auto simp: put_object_def)


lemma put_publish_succeeds:
  "put_succeeds env \<Longrightarrow>
   put_publish env fl c = (Inr None, c @ [Doc ''filelist.json'' (MarshalIndent fl)])"
  by (simp add: put_succeeds_def put_publish_def send_document_succeeds)

lemma put_publish_cases:
  "put_publish env fl c = (Inr None, c @ [Doc ''filelist.json'' (MarshalIndent fl)]) \<or>
   (\<exists>e. put_publish env fl c = (Inl e, c))"
proof (cases "upload_succeeds (filelist_upload env)")
  case True
  then show ?thesis
    by (simp add: put_publish_def send_document_succeeds split: option.splits)
next
  case False
  from send_document_fails [OF False, of FilelistUploadFailed "''filelist.json''"
      "MarshalIndent fl" c]
  obtain e where "send_document (filelist_upload env) FilelistUploadFailed
      ''filelist.json'' (MarshalIndent fl) c = (Inl e, c)"
    by blast
  then show ?thesis
    by (simp add: put_publish_def split: option.splits)
qed



lemma put_filelist_answers:
  "load_answers le \<Longrightarrow> put_filelist le remote c =
     (case latest_filelist c of Some (JsonStrings fl) \<Rightarrow> map to_valid_utf8 fl | _ \<Rightarrow> []) @
     [remote]"
  by (simp add: put_filelist_def loadFileList_answers split: option.splits payload.splits)

lemma Put_succeeds:
  assumes "put_succeeds env"
  shows "Put f env remote (Inr buf) c =
    (Inr None, c @ [Doc remote buf,
       Doc ''filelist.json''
         (MarshalIndent (put_filelist (filelist_load env) remote (c @ [Doc remote buf])))])"
  using assms
  by (simp add: put_succeeds_def Put_def put_object_succeeds put_publish_def
        send_document_succeeds)

text \<open>A \<open>Put\<close> that returns no error has sent both documents, whatever its load did.\<close>

lemma Put_no_error:
  assumes "fst (Put f env remote src c) = Inr r"
  shows "\<exists>buf fl. r = None \<and> src = Inr buf \<and>
    snd (Put f env remote src c) =
      c @ [Doc remote buf, Doc ''filelist.json'' (MarshalIndent (fl @ [remote]))]"
proof (cases "upload_succeeds (object_upload env)")
  case False
  from put_object_fails [OF False, of remote src c]
  obtain e where "put_object (object_upload env) remote src c = (Inl e, c)"
    by blast
  with assms show ?thesis
    by (simp add: Put_def)
next
  case True
  show ?thesis
  proof (cases src)
    case (Inl e)
    with assms show ?thesis by (simp add: Put_def put_object_def)
  next
    case (Inr buf)
    let ?c1 = "c @ [Doc remote buf]"
    let ?fl = "put_filelist (filelist_load env) remote ?c1"
    from Inr True have put: "Put f env remote src c = put_publish env ?fl ?c1"
      by (simp add: Put_def put_object_succeeds)
    obtain fl where fl: "?fl = fl @ [remote]"
      by (auto simp: put_filelist_def Let_def)
    from put_publish_cases [of env ?fl ?c1] assms put Inr fl show ?thesis
      by auto
  qed
qed

text \<open>One caller's three steps are \<open>Put\<close>.\<close>

lemma Put_steps:
  "run_put 3 env (Start remote src, c) =
     (Finished (fst (Put f env remote src c)), snd (Put f env remote src c))"
  by (simp add: numeral_3_eq_3 Put_def split: prod.splits sum.splits)

lemma put_step_Start:
  "put_succeeds env \<Longrightarrow>
   put_step env (Start remote (Inr buf)) c = (Uploaded remote, c @ [Doc remote buf])"
  by (simp add: put_succeeds_def put_object_succeeds)

lemma put_step_Uploaded:
  "put_succeeds env \<Longrightarrow>
   put_step env (Uploaded remote) c =
     (Loaded ((case latest_filelist c of Some (JsonStrings fl) \<Rightarrow> map to_valid_utf8 fl
               | _ \<Rightarrow> []) @ [remote]), c)"
  by (simp add: put_succeeds_def put_filelist_answers)

lemma put_step_Loaded:
  "put_succeeds env \<Longrightarrow>
   put_step env (Loaded fl) c =
     (Finished (Inr None), c @ [Doc ''filelist.json'' (MarshalIndent fl)])"
  by (simp add: put_publish_succeeds)

lemma shuffles_3_3:
  "shuffles [False, False, False] [True, True, True] = set
    [[False,False,False,True,True,True], [False,False,True,False,True,True],
     [False,False,True,True,False,True], [False,False,True,True,True,False],
     [False,True,False,False,True,True], [False,True,False,True,False,True],
     [False,True,False,True,True,False], [False,True,True,False,False,True],
     [False,True,True,False,True,False], [False,True,True,True,False,False],
     [True,False,False,False,True,True], [True,False,False,True,False,True],
     [True,False,False,True,True,False], [True,False,True,False,False,True],
     [True,False,True,False,True,False], [True,False,True,True,False,False],
     [True,True,False,False,False,True], [True,True,False,False,True,False],
     [True,True,False,True,False,False], [True,True,True,False,False,False]]"
  by (simp add: shuffles.simps image_Un insert_commute Un_commute)

lemmas evals = ok_upload_def rejected_upload_def ok_load_def ok_env_def rejected_env_def
  fs0_def Put_def put_object_def put_filelist_def put_publish_def send_document_def
  loadFileList_def List_def getUpdates_def getFile_def download_def file_id_of_def
  StatusOK_def MarshalIndent_def Let_def

lemma ok_env_succeeds [simp]:
  "upload_succeeds ok_upload" "load_answers ok_load" "put_succeeds ok_env"
  "\<not> upload_succeeds rejected_upload"
  by (simp_all add: upload_succeeds_def load_answers_def put_succeeds_def ok_upload_def
        ok_load_def ok_env_def rejected_upload_def StatusOK_def)

section \<open>Concurrent writers\<close>

lemma run_two_schedule:
  assumes env1: "put_succeeds env1" and env2: "put_succeeds env2" and le: "load_answers le"
    and a: "a \<noteq> ''filelist.json''" and b: "b \<noteq> ''filelist.json''"
    and cat: "latest_filelist c = None \<or> (\<exists>fl. latest_filelist c = Some (JsonStrings fl))"
    and sched: "sched \<in> shuffles [False, False, False] [True, True, True]"
  shows "fst (run_two sched env1 env2 (Start a (Inr bufa), Start b (Inr bufb), c)) =
      Finished (Inr None) \<and>
    fst (snd (run_two sched env1 env2 (Start a (Inr bufa), Start b (Inr bufb), c))) =
      Finished (Inr None) \<and>
    List f le dir (snd (snd (run_two sched env1 env2
        (Start a (Inr bufa), Start b (Inr bufb), c)))) =
      Inr ((case List f le dir c of Inl e \<Rightarrow> [] | Inr es \<Rightarrow> es) @
           entries_of f (final_order sched (to_valid_utf8 a) (to_valid_utf8 b)))"
proof -
  note steps = put_step_Start [OF env1] put_step_Start [OF env2]
    put_step_Uploaded [OF env1] put_step_Uploaded [OF env2]
    put_step_Loaded [OF env1] put_step_Loaded [OF env2]
  from sched have cases: "sched \<in> set
    [[False,False,False,True,True,True], [False,False,True,False,True,True],
     [False,False,True,True,False,True], [False,False,True,True,True,False],
     [False,True,False,False,True,True], [False,True,False,True,False,True],
     [False,True,False,True,True,False], [False,True,True,False,False,True],
     [False,True,True,False,True,False], [False,True,True,True,False,False],
     [True,False,False,False,True,True], [True,False,False,True,False,True],
     [True,False,False,True,True,False], [True,False,True,False,False,True],
     [True,False,True,False,True,False], [True,False,True,True,False,False],
     [True,True,False,False,False,True], [True,True,False,False,True,False],
     [True,True,False,True,False,False], [True,True,True,False,False,False]]"
    by (simp only: shuffles_3_3)
  have t1: "fst (run_two sched env1 env2 (Start a (Inr bufa), Start b (Inr bufb), c)) =
      Finished (Inr None)"
    using cases by (auto simp: steps simp del: put_step.simps)
  have t2: "fst (snd (run_two sched env1 env2 (Start a (Inr bufa), Start b (Inr bufb), c))) =
      Finished (Inr None)"
    using cases by (auto simp: steps simp del: put_step.simps)
  have l: "List f le dir (snd (snd (run_two sched env1 env2
        (Start a (Inr bufa), Start b (Inr bufb), c)))) =
      Inr ((case List f le dir c of Inl e \<Rightarrow> [] | Inr es \<Rightarrow> es) @
           entries_of f (final_order sched (to_valid_utf8 a) (to_valid_utf8 b)))"
    using cases cat a b
    by (auto simp: steps List_answers [OF le] latest_filelist_append final_order_def
          entries_of_def MarshalIndent_def simp del: put_step.simps)
  from t1 t2 l show ?thesis by simp
qed

text \<open>
  Claim C1, as the code has it. \<open>Put\<close> has no version token, no conflict check and no
  retry: it loads the file list once and uploads that list with its name added. For two
  calls of \<open>Put\<close> that meet no fault, with names other than \<^verbatim>\<open>filelist.json\<close>, on a chat
  whose latest file list decodes (or that has none), and for every interleaving of their
  three steps: both calls return without error, and the listing afterwards is the
  listing before followed by \<open>final_order\<close> of the schedule and the two names as
  \<^verbatim>\<open>encoding/json\<close> carries them, that is by both names in publish order when one call
  has published before the other loads, and by the name of the call that publishes
  last alone when both have loaded before either publishes. A name that is valid UTF-8
  is carried unchanged; in any other name every invalid byte is listed as U+FFFD.
\<close>

theorem concurrent_puts_last_publisher_wins:
  assumes "put_succeeds env1" and "put_succeeds env2" and "load_answers le"
    and "a \<noteq> ''filelist.json''" and "b \<noteq> ''filelist.json''"
    and "loadFileList le c \<noteq> Inl JSONError"
    and "sched \<in> shuffles [False, False, False] [True, True, True]"
  shows "fst (run_two sched env1 env2 (Start a (Inr bufa), Start b (Inr bufb), c)) =
      Finished (Inr None) \<and>
    fst (snd (run_two sched env1 env2 (Start a (Inr bufa), Start b (Inr bufb), c))) =
      Finished (Inr None) \<and>
    List f le dir (snd (snd (run_two sched env1 env2
        (Start a (Inr bufa), Start b (Inr bufb), c)))) =
      Inr ((case List f le dir c of Inl e \<Rightarrow> [] | Inr es \<Rightarrow> es) @
           entries_of f (final_order sched (to_valid_utf8 a) (to_valid_utf8 b))) \<and>
    (valid_utf8 a \<longrightarrow> to_valid_utf8 a = a) \<and>
    (valid_utf8 b \<longrightarrow> to_valid_utf8 b = b)"
proof -
  from assms(3,6) have "latest_filelist c = None \<or>
      (\<exists>fl. latest_filelist c = Some (JsonStrings fl))"
    by (rule catalog_cases)
  from run_two_schedule [OF assms(1,2,3,4,5) this assms(7), of bufa bufb f dir]
  show ?thesis
    by (simp add: to_valid_utf8_valid)
qed

text \<open>
  The hypotheses of C1 hold for two calls that run one after the other, and for two
  calls whose steps alternate.
\<close>

theorem concurrent_puts_last_publisher_wins_witness:
  "put_succeeds ok_env \<and> load_answers ok_load \<and>
   ''a.txt'' \<noteq> ''filelist.json'' \<and> ''b.txt'' \<noteq> ''filelist.json'' \<and>
   valid_utf8 ''a.txt'' \<and> valid_utf8 ''b.txt'' \<and>
   loadFileList ok_load [Doc ''filelist.json'' (JsonStrings [''x.txt''])] \<noteq> Inl JSONError \<and>
   [False, False, False, True, True, True] \<in> shuffles [False, False, False] [True, True, True] \<and>
   [False, True, False, True, False, True] \<in> shuffles [False, False, False] [True, True, True] \<and>
   List fs0 ok_load [] (snd (snd (run_two [False, False, False, True, True, True] ok_env ok_env
       (Start ''a.txt'' (Inr (Other ''A'')), Start ''b.txt'' (Inr (Other ''B'')),
        [Doc ''filelist.json'' (JsonStrings [''x.txt''])])))) =
     Inr [\<lparr>obj_fs = fs0, obj_name = ''x.txt''\<rparr>, \<lparr>obj_fs = fs0, obj_name = ''a.txt''\<rparr>,
          \<lparr>obj_fs = fs0, obj_name = ''b.txt''\<rparr>] \<and>
   List fs0 ok_load [] (snd (snd (run_two [False, True, False, True, False, True] ok_env ok_env
       (Start ''a.txt'' (Inr (Other ''A'')), Start ''b.txt'' (Inr (Other ''B'')),
        [Doc ''filelist.json'' (JsonStrings [''x.txt''])])))) =
     Inr [\<lparr>obj_fs = fs0, obj_name = ''x.txt''\<rparr>, \<lparr>obj_fs = fs0, obj_name = ''b.txt''\<rparr>]"
proof -
  have h: "put_succeeds ok_env" "load_answers ok_load"
    "''a.txt'' \<noteq> ''filelist.json''" "''b.txt'' \<noteq> ''filelist.json''"
    "loadFileList ok_load [Doc ''filelist.json'' (JsonStrings [''x.txt''])] \<noteq> Inl JSONError"
    "[False, False, False, True, True, True] \<in> shuffles [False, False, False] [True, True, True]"
    "[False, True, False, True, False, True] \<in> shuffles [False, False, False] [True, True, True]"
    by (simp_all add: loadFileList_answers shuffles_3_3)
  have v: "valid_utf8 ''a.txt''" "valid_utf8 ''b.txt''"
    by simp_all
  from concurrent_puts_last_publisher_wins [OF h(1) h(1) h(2) h(3) h(4) h(5) h(6),
      of "Other ''A''" "Other ''B''" fs0 "[]"]
    concurrent_puts_last_publisher_wins [OF h(1) h(1) h(2) h(3) h(4) h(5) h(7),
      of "Other ''A''" "Other ''B''" fs0 "[]"] h v
  show ?thesis
    by (simp add: List_answers entries_of_def final_order_def)
qed

text \<open>
  C1 as the spec states it fails: both calls start from the file list \<^verbatim>\<open>["x.txt"]\<close>,
  their steps alternate, both return without error, and \<^verbatim>\<open>a.txt\<close> is not listed.
\<close>

theorem concurrent_puts_lose_a_name:
  "fst (run_two [False, True, False, True, False, True] ok_env ok_env
       (Start ''a.txt'' (Inr (Other ''A'')), Start ''b.txt'' (Inr (Other ''B'')),
        [Doc ''filelist.json'' (JsonStrings [''x.txt''])])) = Finished (Inr None) \<and>
   fst (snd (run_two [False, True, False, True, False, True] ok_env ok_env
       (Start ''a.txt'' (Inr (Other ''A'')), Start ''b.txt'' (Inr (Other ''B'')),
        [Doc ''filelist.json'' (JsonStrings [''x.txt''])]))) = Finished (Inr None) \<and>
   List fs0 ok_load [] (snd (snd (run_two [False, True, False, True, False, True] ok_env ok_env
       (Start ''a.txt'' (Inr (Other ''A'')), Start ''b.txt'' (Inr (Other ''B'')),
        [Doc ''filelist.json'' (JsonStrings [''x.txt''])])))) =
     Inr [\<lparr>obj_fs = fs0, obj_name = ''x.txt''\<rparr>, \<lparr>obj_fs = fs0, obj_name = ''b.txt''\<rparr>]"
  by (simp add: put_step_Start put_step_Uploaded put_step_Loaded List_answers entries_of_def
        MarshalIndent_def del: put_step.simps)

section \<open>A file list that does not decode\<close>

text \<open>
  Claim C2 at a failing input. The latest \<^verbatim>\<open>filelist.json\<close> of the chat does not decode:
  \<open>loadFileList\<close> and \<open>List\<close> return the decoder's error, but \<open>Put\<close> takes every error of
  \<open>loadFileList\<close> for a missing file list (the comment of line 96 names that case only),
  starts from the empty list and publishes a file list that holds the new name alone.
\<close>

theorem Put_resets_corrupt_catalog:
  "loadFileList ok_load [Doc ''a.txt'' (Other ''A''), Doc ''filelist.json'' (Other ''not json'')] =
     Inl JSONError \<and>
   List fs0 ok_load [] [Doc ''a.txt'' (Other ''A''), Doc ''filelist.json'' (Other ''not json'')] =
     Inl JSONError \<and>
   Put fs0 ok_env ''new.txt'' (Inr (Other ''data''))
     [Doc ''a.txt'' (Other ''A''), Doc ''filelist.json'' (Other ''not json'')] =
     (Inr None, [Doc ''a.txt'' (Other ''A''), Doc ''filelist.json'' (Other ''not json''),
        Doc ''new.txt'' (Other ''data''), Doc ''filelist.json'' (JsonStrings [''new.txt''])])"
  by (simp add: evals)

section \<open>A chat without a file list\<close>

text \<open>
  Claim C3, as the code has it. When \<^verbatim>\<open>getUpdates\<close> is answered and no message of the chat
  carries a document named \<^verbatim>\<open>filelist.json\<close>, \<open>loadFileList\<close> returns the error
  \<^verbatim>\<open>filelist.json not found\<close> and \<open>List\<close> returns that error; only \<open>Put\<close> takes it for
  an empty file list, to which it adds its name.
\<close>

theorem no_filelist_is_an_error:
  assumes "updates_request le = None" and "updates_get le = GetOk"
    and "\<forall>p. Doc ''filelist.json'' p \<notin> set c"
  shows "loadFileList le c = Inl FilelistNotFound \<and>
         List f le dir c = Inl FilelistNotFound \<and>
         put_filelist le remote c = [remote]"
  using assms
  by (simp add: loadFileList_no_filelist latest_filelist_None List_def put_filelist_def)

text \<open>The hypotheses of C3 hold for a chat with a note and one object.\<close>

theorem no_filelist_is_an_error_witness:
  "updates_request ok_load = None \<and> updates_get ok_load = GetOk \<and>
   (\<forall>p. Doc ''filelist.json'' p \<notin> set [Note, Doc ''a.txt'' (Other ''A'')]) \<and>
   loadFileList ok_load [Note, Doc ''a.txt'' (Other ''A'')] = Inl FilelistNotFound \<and>
   List fs0 ok_load [] [Note, Doc ''a.txt'' (Other ''A'')] = Inl FilelistNotFound \<and>
   put_filelist ok_load ''b.txt'' [Note, Doc ''a.txt'' (Other ''A'')] = [''b.txt'']"
  using no_filelist_is_an_error [of ok_load "[Note, Doc ''a.txt'' (Other ''A'')]" fs0 "[]" "''b.txt''"]
  by (simp add: ok_load_def)

text \<open>C3 as the spec states it fails on the empty chat: the result is an error.\<close>

theorem List_empty_chat_fails:
  "loadFileList ok_load [] = Inl FilelistNotFound \<and> List fs0 ok_load [] [] = Inl FilelistNotFound"
  by (simp add: evals)

section \<open>The reserved name\<close>





section \<open>Listing\<close>

text \<open>
  Claim C5 at a failing input. The file list is \<^verbatim>\<open>["a.txt", "b.txt"]\<close> and the directory
  asked for is \<^verbatim>\<open>b\<close>: \<open>List\<close> never reads \<open>dir\<close> and returns both entries, \<^verbatim>\<open>a.txt\<close>
  among them.
\<close>

theorem List_ignores_dir:
  "List fs0 ok_load ''b'' [Doc ''filelist.json'' (JsonStrings [''a.txt'', ''b.txt''])] =
     Inr [\<lparr>obj_fs = fs0, obj_name = ''a.txt''\<rparr>, \<lparr>obj_fs = fs0, obj_name = ''b.txt''\<rparr>]"
  by (simp add: evals)

section \<open>A failed object upload\<close>

text \<open>
  Claim C6. When the upload of the object fails (one of its checked calls returns an
  error, or the response is not 200), \<open>Put\<close> returns an error, the chat is as before, so
  no file list was sent, and \<open>List\<close> returns afterwards what it returns before, in every
  environment and for every directory.
\<close>

theorem failed_upload_leaves_chat:
  assumes "\<not> upload_succeeds (object_upload env)"
  shows "isl (fst (Put f env remote src c)) \<and>
         snd (Put f env remote src c) = c \<and>
         List f le dir (snd (Put f env remote src c)) = List f le dir c"
proof -
  from put_object_fails [OF assms, of remote src c]
  obtain e where "put_object (object_upload env) remote src c = (Inl e, c)"
    by blast
  then show ?thesis by (simp add: Put_def)
qed

text \<open>The hypothesis of C6 holds for an upload answered with 502.\<close>

theorem failed_upload_leaves_chat_witness:
  "\<not> upload_succeeds (object_upload rejected_env) \<and>
   isl (fst (Put fs0 rejected_env ''b.txt'' (Inr (Other ''B''))
          [Doc ''filelist.json'' (JsonStrings [''a.txt''])])) \<and>
   snd (Put fs0 rejected_env ''b.txt'' (Inr (Other ''B''))
          [Doc ''filelist.json'' (JsonStrings [''a.txt''])]) =
     [Doc ''filelist.json'' (JsonStrings [''a.txt''])] \<and>
   List fs0 ok_load [] (snd (Put fs0 rejected_env ''b.txt'' (Inr (Other ''B''))
          [Doc ''filelist.json'' (JsonStrings [''a.txt''])])) =
     List fs0 ok_load [] [Doc ''filelist.json'' (JsonStrings [''a.txt''])]"
  using failed_upload_leaves_chat [of rejected_env fs0 "''b.txt''" "Inr (Other ''B'')"
      "[Doc ''filelist.json'' (JsonStrings [''a.txt''])]" ok_load "[]"]
  by (simp add: rejected_env_def)

section \<open>Put, then List\<close>

lemma List_after_Put:
  assumes env: "put_succeeds env" and le: "load_answers le"
    and remote: "remote \<noteq> ''filelist.json''"
    and cat: "loadFileList le c \<noteq> Inl JSONError"
  shows "List f le dir (snd (Put f env remote (Inr buf) c)) =
       Inr ((case List f le dir c of Inl e \<Rightarrow> [] | Inr es \<Rightarrow> es) @
            [\<lparr>obj_fs = f, obj_name = to_valid_utf8 remote\<rparr>])"
proof -
  from env have el: "load_answers (filelist_load env)"
    by (simp add: put_succeeds_def)
  from catalog_cases [OF le cat] remote show ?thesis
    by (auto simp: Put_succeeds [OF env] put_filelist_answers [OF el] List_answers [OF le]
          latest_filelist_append entries_of_def MarshalIndent_def)
qed

lemma Put_Put_from_no_filelist:
  assumes env1: "put_succeeds env1" and env2: "put_succeeds env2" and le: "load_answers le"
    and none: "\<forall>p. Doc ''filelist.json'' p \<notin> set c"
  shows "List f le dir (snd (Put f env2 ''b.txt'' (Inr buf2)
            (snd (Put f env1 ''a.txt'' (Inr buf1) c)))) =
         Inr [\<lparr>obj_fs = f, obj_name = ''a.txt''\<rparr>, \<lparr>obj_fs = f, obj_name = ''b.txt''\<rparr>]"
proof -
  from env1 have el1: "load_answers (filelist_load env1)"
    by (simp add: put_succeeds_def)
  from env2 have el2: "load_answers (filelist_load env2)"
    by (simp add: put_succeeds_def)
  from none have "latest_filelist c = None"
    by (simp add: latest_filelist_None)
  then show ?thesis
    by (simp add: Put_succeeds [OF env1] Put_succeeds [OF env2] put_filelist_answers [OF el1]
          put_filelist_answers [OF el2] List_answers [OF le] latest_filelist_append
          entries_of_def MarshalIndent_def)
qed

lemma Put_name_listed:
  assumes ok: "fst (Put f env remote src c) = Inr r" and le: "load_answers le"
  shows "\<exists>es. List f le dir (snd (Put f env remote src c)) =
           Inr (es @ [\<lparr>obj_fs = f, obj_name = to_valid_utf8 remote\<rparr>])"
proof -
  from Put_no_error [OF ok] obtain buf fl where
    "snd (Put f env remote src c) =
       c @ [Doc remote buf, Doc ''filelist.json'' (MarshalIndent (fl @ [remote]))]"
    by blast
  then show ?thesis
    by (simp add: List_answers [OF le] latest_filelist_append entries_of_def)
qed

text \<open>
  A name that is not valid UTF-8 is not listed as it was put: the byte \<^verbatim>\<open>0xFF\<close> comes
  back as U+FFFD.
\<close>

lemma Put_invalid_utf8_name:
  "List fs0 ok_load [] (snd (Put fs0 ok_env (CHR 0xFF # ''.txt'') (Inr (Other ''X'')) [])) =
     Inr [\<lparr>obj_fs = fs0, obj_name = [CHR 0xEF, CHR 0xBF, CHR 0xBD] @ ''.txt''\<rparr>]"
  by (simp add: evals RuneError_def continuation_def)

text \<open>
  Claim C7, as the code has it. First: a \<open>Put\<close> that meets no fault, with a name other
  than \<^verbatim>\<open>filelist.json\<close>, on a chat whose latest file list decodes (or that has none),
  returns no error, and the listing afterwards is the listing before (empty when there
  was no file list) followed by the new name as \<^verbatim>\<open>encoding/json\<close> carries it. Second:
  on a chat without a file list, such a \<open>Put\<close> of \<^verbatim>\<open>a.txt\<close> and then of \<^verbatim>\<open>b.txt\<close> make the
  listing \<^verbatim>\<open>a.txt\<close>, \<^verbatim>\<open>b.txt\<close>. Third: after any \<open>Put\<close> that returns no error, a listing
  that is answered ends with the name put, as \<^verbatim>\<open>encoding/json\<close> carries it. Fourth: a
  name that is valid UTF-8 is carried unchanged (in any other name every invalid byte
  is listed as U+FFFD).
\<close>

theorem Put_appends_name:
  "(put_succeeds env \<and> load_answers le \<and> remote \<noteq> ''filelist.json'' \<and>
    loadFileList le c \<noteq> Inl JSONError \<longrightarrow>
      fst (Put f env remote (Inr buf) c) = Inr None \<and>
      List f le dir (snd (Put f env remote (Inr buf) c)) =
        Inr ((case List f le dir c of Inl e \<Rightarrow> [] | Inr es \<Rightarrow> es) @
             [\<lparr>obj_fs = f, obj_name = to_valid_utf8 remote\<rparr>])) \<and>
   (put_succeeds env1 \<and> put_succeeds env2 \<and> load_answers le \<and>
    (\<forall>p. Doc ''filelist.json'' p \<notin> set c0) \<longrightarrow>
      List f le dir (snd (Put f env2 ''b.txt'' (Inr buf2)
          (snd (Put f env1 ''a.txt'' (Inr buf1) c0)))) =
        Inr [\<lparr>obj_fs = f, obj_name = ''a.txt''\<rparr>, \<lparr>obj_fs = f, obj_name = ''b.txt''\<rparr>]) \<and>
   (fst (Put f env remote src c) = Inr r \<and> load_answers le \<longrightarrow>
      (\<exists>es. List f le dir (snd (Put f env remote src c)) =
         Inr (es @ [\<lparr>obj_fs = f, obj_name = to_valid_utf8 remote\<rparr>]))) \<and>
   (valid_utf8 remote \<longrightarrow> to_valid_utf8 remote = remote)"
proof (intro conjI impI)
  assume h: "put_succeeds env \<and> load_answers le \<and> remote \<noteq> ''filelist.json'' \<and>
    loadFileList le c \<noteq> Inl JSONError"
  then show "fst (Put f env remote (Inr buf) c) = Inr None"
    by (simp add: Put_succeeds)
  from h show "List f le dir (snd (Put f env remote (Inr buf) c)) =
        Inr ((case List f le dir c of Inl e \<Rightarrow> [] | Inr es \<Rightarrow> es) @
             [\<lparr>obj_fs = f, obj_name = to_valid_utf8 remote\<rparr>])"
    by (simp add: List_after_Put)
next
  assume "put_succeeds env1 \<and> put_succeeds env2 \<and> load_answers le \<and>
    (\<forall>p. Doc ''filelist.json'' p \<notin> set c0)"
  then show "List f le dir (snd (Put f env2 ''b.txt'' (Inr buf2)
          (snd (Put f env1 ''a.txt'' (Inr buf1) c0)))) =
        Inr [\<lparr>obj_fs = f, obj_name = ''a.txt''\<rparr>, \<lparr>obj_fs = f, obj_name = ''b.txt''\<rparr>]"
    by (simp add: Put_Put_from_no_filelist)
next
  assume "fst (Put f env remote src c) = Inr r \<and> load_answers le"
  then show "\<exists>es. List f le dir (snd (Put f env remote src c)) =
         Inr (es @ [\<lparr>obj_fs = f, obj_name = to_valid_utf8 remote\<rparr>])"
    using Put_name_listed [of f env remote src c r le dir] by simp
next
  assume "valid_utf8 remote"
  then show "to_valid_utf8 remote = remote"
    by (rule to_valid_utf8_valid)
qed

text \<open>The hypotheses of C7 hold in the environment without faults.\<close>

theorem Put_appends_name_witness:
  "put_succeeds ok_env \<and> load_answers ok_load \<and> ''c.txt'' \<noteq> ''filelist.json'' \<and>
   valid_utf8 ''c.txt'' \<and>
   loadFileList ok_load [Doc ''filelist.json'' (JsonStrings [''a.txt''])] \<noteq> Inl JSONError \<and>
   (\<forall>p. Doc ''filelist.json'' p \<notin> set [Note]) \<and>
   fst (Put fs0 ok_env ''c.txt'' (Inr (Other ''C''))
          [Doc ''filelist.json'' (JsonStrings [''a.txt''])]) = Inr None \<and>
   List fs0 ok_load [] (snd (Put fs0 ok_env ''c.txt'' (Inr (Other ''C''))
          [Doc ''filelist.json'' (JsonStrings [''a.txt''])])) =
     Inr [\<lparr>obj_fs = fs0, obj_name = ''a.txt''\<rparr>, \<lparr>obj_fs = fs0, obj_name = ''c.txt''\<rparr>] \<and>
   List fs0 ok_load [] (snd (Put fs0 ok_env ''b.txt'' (Inr (Other ''B''))
          (snd (Put fs0 ok_env ''a.txt'' (Inr (Other ''A'')) [Note])))) =
     Inr [\<lparr>obj_fs = fs0, obj_name = ''a.txt''\<rparr>, \<lparr>obj_fs = fs0, obj_name = ''b.txt''\<rparr>]"
proof -
  have h1: "put_succeeds ok_env" and h2: "load_answers ok_load"
    and h3: "''c.txt'' \<noteq> ''filelist.json''"
    and h4: "loadFileList ok_load [Doc ''filelist.json'' (JsonStrings [''a.txt''])] \<noteq>
      Inl JSONError"
    and h5: "\<forall>p. Doc ''filelist.json'' p \<notin> set [Note]"
    and h6: "valid_utf8 ''c.txt''"
    by (simp_all add: loadFileList_answers)
  from h1 h2 h3 h4 h5 h6
    Put_appends_name [where env = ok_env and le = ok_load and remote = "''c.txt''"
      and c = "[Doc ''filelist.json'' (JsonStrings [''a.txt''])]" and f = fs0
      and buf = "Other ''C''" and dir = "[]" and ?c0.0 = "[Note]" and ?env1.0 = ok_env
      and ?env2.0 = ok_env and ?buf1.0 = "Other ''A''" and ?buf2.0 = "Other ''B''"
      and src = "Inr (Other ''C'')" and r = None]
  show ?thesis
    by (simp add: List_answers entries_of_def)
qed

text \<open>
  C7 as the spec states it fails: after a \<open>Put\<close> of \<^verbatim>\<open>a.txt\<close> and a \<open>Put\<close> of
  \<^verbatim>\<open>filelist.json\<close> with the content \<^verbatim>\<open>[]\<close>, both without error, the listing holds
  \<^verbatim>\<open>filelist.json\<close> alone: the second call has read its own content as the file list.
\<close>

theorem Put_reserved_name_drops_catalog:
  "fst (Put fs0 ok_env ''a.txt'' (Inr (Other ''A'')) []) = Inr None \<and>
   fst (Put fs0 ok_env ''filelist.json'' (Inr (JsonStrings []))
          (snd (Put fs0 ok_env ''a.txt'' (Inr (Other ''A'')) []))) = Inr None \<and>
   List fs0 ok_load [] (snd (Put fs0 ok_env ''filelist.json'' (Inr (JsonStrings []))
          (snd (Put fs0 ok_env ''a.txt'' (Inr (Other ''A'')) [])))) =
     Inr [\<lparr>obj_fs = fs0, obj_name = ''filelist.json''\<rparr>]"
  by (simp add: evals)

section \<open>The methods of an object\<close>

text \<open>
  Claim C8. \<open>Open\<close>, \<open>Update\<close> and \<open>Remove\<close> return \<^verbatim>\<open>fs.ErrorNotImplemented\<close> and \<open>Hash\<close>
  returns \<^verbatim>\<open>fs.ErrorHashUnsupported\<close>, for every object and every argument; both values
  are errors of an unsupported operation. None of the four reads a state.
\<close>

theorem unsupported_accessors:
  "Open obj options = Inl ErrorNotImplemented \<and>
   Update obj info src options' = Some ErrorNotImplemented \<and>
   Remove obj = Some ErrorNotImplemented \<and>
   Hash obj ty = Inl ErrorHashUnsupported \<and>
   UnsupportedOperationError ErrorNotImplemented \<and>
   UnsupportedOperationError ErrorHashUnsupported"
  by (simp add: Open_def Update_def Remove_def Hash_def UnsupportedOperationError_def)

text \<open>
  Claim C9, as the code has it. \<open>ModTime\<close> returns the zero time and no error for every
  object; \<open>Hash\<close> returns \<^verbatim>\<open>fs.ErrorHashUnsupported\<close> and \<open>Open\<close>, the only way to read
  content, \<^verbatim>\<open>fs.ErrorNotImplemented\<close>.
\<close>

theorem ModTime_zero_Hash_unsupported:
  "ModTime obj = (Time 0, None) \<and> Hash obj ty = Inl ErrorHashUnsupported \<and>
   Open obj options = Inl ErrorNotImplemented"
  by (simp add: ModTime_def Hash_def Open_def)

text \<open>C9 as the spec states it fails: the error of \<open>ModTime\<close> is \<^verbatim>\<open>nil\<close>.\<close>

theorem ModTime_reports_no_error:
  "snd (ModTime \<lparr>obj_fs = fs0, obj_name = ''a.txt''\<rparr>) = None \<and>
   fst (ModTime \<lparr>obj_fs = fs0, obj_name = ''a.txt''\<rparr>) = Time 0"
  by (simp add: ModTime_def)

section \<open>The object that Put returns\<close>

text \<open>
  Claim C10 at a failing input. A \<open>Put\<close> of \<^verbatim>\<open>notes.txt\<close> on the empty chat meets no
  fault and returns \<^verbatim>\<open>nil, nil\<close> (line 130, with its \<^verbatim>\<open>TODO\<close>): no error, and no object.
\<close>

theorem Put_returns_nil_object:
  "Put fs0 ok_env ''notes.txt'' (Inr (Other ''B'')) [] =
     (Inr None, [Doc ''notes.txt'' (Other ''B''),
                 Doc ''filelist.json'' (JsonStrings [''notes.txt''])])"
  by (simp add: evals)

end
